theory Spec2Isabelle
  imports Complex_Main "HOL-Library.Multiset"
begin

section \<open>Data model\<close>

text \<open>
  The tactical decision core of the agent: \<^verbatim>\<open>FormationStrategy\<close>
  (\<^verbatim>\<open>src/strategy/formation_strategy.py\<close>) and \<^verbatim>\<open>DecisionMaker\<close>
  (\<^verbatim>\<open>src/decision_makers/decision_maker.py\<close>).

  Coordinates are Python floats; they are modelled as \<^typ>\<open>real\<close>, so the order
  properties below are those of the real line (no NaN). Reach steps and uniform numbers
  are Python ints, modelled as \<^typ>\<open>int\<close>.
\<close>

text \<open>\<^verbatim>\<open>Vector2D\<close> of pyrusgeom: the fields \<^verbatim>\<open>_x\<close>, \<^verbatim>\<open>_y\<close>, read by \<^verbatim>\<open>x()\<close>, \<^verbatim>\<open>y()\<close>.\<close>

record Vector2D =
  vec_x :: real
  vec_y :: real

datatype error = KeyError | TypeError | AttributeError

datatype Situation =
    OurSetPlay_Situation
  | OppSetPlay_Situation
  | Defense_Situation
  | Offense_Situation
  | PenaltyKick_Situation

text \<open>
  Modelled from the spec: \<^verbatim>\<open>GameModeType\<close> and the side enum are declared in the
  generated module \<^verbatim>\<open>service_pb2\<close>, which is not among the sources. The constructors
  are the game modes the source names; \<open>OtherGameMode\<close> stands for every further rule
  state of the match (free kick, offside, ...). The names that end in an underscore in
  the source (\<^verbatim>\<open>KickIn_\<close>, \<^verbatim>\<open>PenaltyKick_\<close>, ...) are written without it. The
  source compares these values with \<^verbatim>\<open>is\<close>, \<^verbatim>\<open>==\<close> and \<^verbatim>\<open>in\<close>; on enum values
  (small ints) all three are equality.
\<close>

datatype GameModeType =
    BeforeKickOff
  | PlayOn
  | KickIn
  | CornerKick
  | GoalKick
  | AfterGoal
  | PenaltyKick
  | GoalieCatch
  | OtherGameMode nat

datatype Side = UNKNOWN | LEFT | RIGHT

text \<open>
  The fields of the world model that the two classes read:
  \<^verbatim>\<open>wm.intercept_table.*\<close>, \<^verbatim>\<open>wm.ball.position\<close>, \<^verbatim>\<open>wm.ball.velocity\<close>,
  \<^verbatim>\<open>wm.self.uniform_number\<close>, \<^verbatim>\<open>wm.self.is_goalie\<close> and the top-level fields.
\<close>

record WorldModel =
  first_teammate_reach_steps :: int
  first_opponent_reach_steps :: int
  self_reach_steps :: int
  ball_position :: Vector2D
  ball_velocity :: Vector2D
  game_mode_type :: GameModeType
  game_mode_side :: Side
  our_side :: Side
  uniform_number :: int
  is_goalie :: bool
  is_penalty_kick_mode :: bool
  offside_line_x :: real

text \<open>
  A \<^verbatim>\<open>FormationFile\<close> object is referred to by the path of the configuration file it
  was built from: \<^verbatim>\<open>Formation.__init__\<close> builds one object per path, and no field
  holding one is reassigned afterwards, so the path identifies the object.
\<close>

type_synonym ff_ref = string

record Formation =
  before_kick_off_formation :: ff_ref
  defense_formation :: ff_ref
  offense_formation :: ff_ref
  goalie_kick_opp_formation :: ff_ref
  goalie_kick_our_formation :: ff_ref
  kickin_our_formation :: ff_ref
  setplay_opp_formation :: ff_ref
  setplay_our_formation :: ff_ref

definition Formation_init :: "string \<Rightarrow> Formation" where
  "Formation_init path =
     \<lparr> before_kick_off_formation = path @ ''/before-kick-off.conf'',
       defense_formation = path @ ''/defense-formation.conf'',
       offense_formation = path @ ''/offense-formation.conf'',
       goalie_kick_opp_formation = path @ ''/goalie-kick-opp-formation.conf'',
       goalie_kick_our_formation = path @ ''/goalie-kick-our-formation.conf'',
       kickin_our_formation = path @ ''/kickin-our-formation.conf'',
       setplay_opp_formation = path @ ''/setplay-opp-formation.conf'',
       setplay_our_formation = path @ ''/setplay-our-formation.conf'' \<rparr>"

text \<open>
  A Python dict from roster slot to position is an association list in insertion order
  (\<^verbatim>\<open>values()\<close> is then \<open>map snd\<close>, a lookup is \<^const>\<open>map_of\<close>).

  The collaborators that are not among the sources are parameters of the model:
  the class \<^verbatim>\<open>FormationFile\<close> (\<^verbatim>\<open>src/strategy/formation_file.py\<close>) with its
  constructor, \<^verbatim>\<open>update\<close> and \<^verbatim>\<open>get_poses\<close>, and \<^verbatim>\<open>inertia_n_step_point\<close> of
  pyrusgeom. \<open>ff_written_back\<close> is the state of a formation file after the caller has
  overwritten, in place, the positions of the table \<^verbatim>\<open>get_poses\<close> handed out
  (the identity when \<^verbatim>\<open>get_poses\<close> hands out copies).
\<close>

record 'ff collaborators =
  FormationFile :: "string \<Rightarrow> 'ff"
  ff_update :: "'ff \<Rightarrow> Vector2D \<Rightarrow> 'ff"
  ff_get_poses :: "'ff \<Rightarrow> (int \<times> Vector2D) list"
  ff_written_back :: "'ff \<Rightarrow> (int \<times> Vector2D) list \<Rightarrow> 'ff"
  inertia_n_step_point :: "Vector2D \<Rightarrow> Vector2D \<Rightarrow> int \<Rightarrow> real \<Rightarrow> Vector2D"

text \<open>
  The attribute \<^verbatim>\<open>_poses\<close> holds a set of tuples after construction and a dict after
  an update; Python does not enforce the annotation \<^verbatim>\<open>dict[int, Vector2D]\<close>.
\<close>

datatype poses =
    PosesSet "(int \<times> Vector2D) set"
  | PosesDict "(int \<times> Vector2D) list"

record 'ff FormationStrategy =
  formations :: "string \<rightharpoonup> Formation"
  selected_formation_name :: string
  poses :: poses
  current_situation :: Situation
  current_formation_file :: ff_ref
  ff_heap :: "ff_ref \<Rightarrow> 'ff"

section \<open>FormationStrategy\<close>

definition read_formations :: "string \<rightharpoonup> Formation" where
  "read_formations =
     [''4-3-3'' \<mapsto> Formation_init ''src/formations/4-3-3'',
      ''4-3-3-cyrus-base'' \<mapsto> Formation_init ''src/formations/4-3-3-cyrus-base'',
      ''4-3-3-helios-base'' \<mapsto> Formation_init ''src/formations/4-3-3-helios-base'']"

definition get_current_formation :: "'ff FormationStrategy \<Rightarrow> error + Formation" where
  "get_current_formation s =
     (case formations s (selected_formation_name s) of
        None \<Rightarrow> Inl KeyError
      | Some fm \<Rightarrow> Inr fm)"

definition set_formation :: "'ff FormationStrategy \<Rightarrow> 'ff FormationStrategy" where
  "set_formation s = s\<lparr>selected_formation_name := ''4-3-3-cyrus-base''\<rparr>"

text \<open>
  \<^verbatim>\<open>__init__\<close>. The braces at line 74 hold tuples, not \<^verbatim>\<open>key: value\<close> pairs, so
  \<^verbatim>\<open>_poses\<close> starts as the set of the pairs \<open>(i, Vector2D(0, 0))\<close> for
  \<open>i\<close> in \<^verbatim>\<open>range(11)\<close>, that is 0..10. (Each \<^verbatim>\<open>Vector2D\<close> is a fresh object, hashed by
  identity, so the set has 11 elements.) An attribute holds a placeholder in the record
  until the constructor assigns it.
\<close>

definition FormationStrategy_init ::
  "'ff collaborators \<Rightarrow> error + 'ff FormationStrategy" where
  "FormationStrategy_init C =
     (let s = set_formation
                \<lparr> formations = read_formations,
                  selected_formation_name = [],
                  poses = PosesSet {},
                  current_situation = Offense_Situation,
                  current_formation_file = [],
                  ff_heap = FormationFile C \<rparr>;
          s = s\<lparr>poses := PosesSet ((\<lambda>i. (i, \<lparr>vec_x = 0, vec_y = 0\<rparr>)) ` {0..<11})\<rparr>;
          s = s\<lparr>current_situation := Offense_Situation\<rparr>
      in case get_current_formation s of
           Inl e \<Rightarrow> Inl e
         | Inr fm \<Rightarrow> Inr (s\<lparr>current_formation_file := offense_formation fm\<rparr>))"

text \<open>Lines 97-103 of \<^verbatim>\<open>update\<close>: the predicted ball point.\<close>

definition predicted_ball :: "'ff collaborators \<Rightarrow> WorldModel \<Rightarrow> Vector2D" where
  "predicted_ball C wm =
     (let tm_min = first_teammate_reach_steps wm;
          opp_min = first_opponent_reach_steps wm;
          self_min = self_reach_steps wm;
          all_min = min tm_min (min opp_min self_min);
          current_ball_pos = \<lparr>vec_x = vec_x (ball_position wm), vec_y = vec_y (ball_position wm)\<rparr>;
          current_ball_vel = \<lparr>vec_x = vec_x (ball_velocity wm), vec_y = vec_y (ball_velocity wm)\<rparr>
      in inertia_n_step_point C current_ball_pos current_ball_vel all_min 0.96)"

text \<open>Lines 106-121: the value assigned to \<^verbatim>\<open>current_situation\<close>.\<close>

definition classify :: "WorldModel \<Rightarrow> Vector2D \<Rightarrow> Situation" where
  "classify wm ball_pos =
     (let tm_min = first_teammate_reach_steps wm;
          opp_min = first_opponent_reach_steps wm;
          self_min = self_reach_steps wm
      in if game_mode_type wm = PlayOn then
           (let thr = (0::int);
                thr = (if vec_x ball_pos > 0 then thr + 1 else thr);
                thr = (if uniform_number wm > 6 then thr + 1 else thr)
            in if min tm_min self_min < opp_min + thr
               then Offense_Situation
               else Defense_Situation)
         else if game_mode_type wm = PenaltyKick then PenaltyKick_Situation
         else if game_mode_type wm \<noteq> PlayOn \<and> game_mode_side wm = our_side wm
           then OurSetPlay_Situation
         else OppSetPlay_Situation)"

text \<open>
  Lines 123-142: the \<^verbatim>\<open>if\<close>/\<^verbatim>\<open>elif\<close> chain without a final \<^verbatim>\<open>else\<close>. The result is
  the formation file assigned to \<^verbatim>\<open>current_formation_file\<close>, \<open>None\<close> when no branch
  is taken, and \<open>KeyError\<close> when the lookup of the active formation set fails.
\<close>

definition pick ::
  "'ff FormationStrategy \<Rightarrow> (Formation \<Rightarrow> ff_ref) \<Rightarrow> error + ff_ref option" where
  "pick s field =
     (case get_current_formation s of
        Inl e \<Rightarrow> Inl e
      | Inr fm \<Rightarrow> Inr (Some (field fm)))"

definition select_formation_file ::
  "'ff FormationStrategy \<Rightarrow> WorldModel \<Rightarrow> error + ff_ref option" where
  "select_formation_file s wm =
     (if current_situation s = Offense_Situation then pick s offense_formation
      else if current_situation s = Defense_Situation then pick s defense_formation
      else if game_mode_type wm \<in> set [KickIn, CornerKick] then
        (if game_mode_side wm = our_side wm
         then pick s kickin_our_formation
         else pick s setplay_opp_formation)
      else if game_mode_type wm \<in> set [GoalKick, GoalieCatch] then
        (if game_mode_side wm = our_side wm
         then pick s goalie_kick_our_formation
         else pick s goalie_kick_opp_formation)
      else if game_mode_type wm \<in> set [BeforeKickOff, AfterGoal]
        then pick s before_kick_off_formation
      else if current_situation s = OppSetPlay_Situation then pick s setplay_opp_formation
      else if current_situation s = OurSetPlay_Situation then pick s setplay_our_formation
      else Inr None)"

text \<open>
  Lines 147-153: the two loops over \<^verbatim>\<open>_poses.values()\<close>. Each position object gets
  \<^verbatim>\<open>_x = min(x, bound)\<close>; an object stored under two slots is visited twice, which
  gives the same result, as \<open>min\<close> is idempotent.
\<close>

definition clamp_poses :: "WorldModel \<Rightarrow> (int \<times> Vector2D) list \<Rightarrow> (int \<times> Vector2D) list" where
  "clamp_poses wm tbl =
     (if game_mode_type wm \<in> set [BeforeKickOff, AfterGoal] then
        map (\<lambda>(n, pos). (n, pos\<lparr>vec_x := min (vec_x pos) (- 0.5)\<rparr>)) tbl
      else
        (let offside_line = offside_line_x wm
         in map (\<lambda>(n, pos). (n, pos\<lparr>vec_x := min (vec_x pos) (offside_line - 0.5)\<rparr>)) tbl))"

definition update ::
  "'ff collaborators \<Rightarrow> 'ff FormationStrategy \<Rightarrow> WorldModel \<Rightarrow> error + 'ff FormationStrategy" where
  "update C s wm =
     (let s = set_formation s;
          ball_pos = predicted_ball C wm;
          s = s\<lparr>current_situation := classify wm ball_pos\<rparr>
      in case select_formation_file s wm of
           Inl e \<Rightarrow> Inl e
         | Inr sel \<Rightarrow>
            (let s = (case sel of None \<Rightarrow> s | Some f \<Rightarrow> s\<lparr>current_formation_file := f\<rparr>);
                 r = current_formation_file s;
                 ff = ff_update C (ff_heap s r) ball_pos;
                 tbl = clamp_poses wm (ff_get_poses C ff)
             in Inr (s\<lparr>ff_heap := (ff_heap s)(r := ff_written_back C ff tbl),
                       poses := PosesDict tbl\<rparr>)))"

definition get_position :: "'ff FormationStrategy \<Rightarrow> int \<Rightarrow> error + Vector2D" where
  "get_position s unum =
     (case poses s of
        PosesSet _ \<Rightarrow> Inl TypeError
      | PosesDict d \<Rightarrow>
          (case map_of d unum of
             None \<Rightarrow> Inl KeyError
           | Some pos \<Rightarrow> Inr pos))"

definition get_offside_line :: "'ff FormationStrategy \<Rightarrow> error + real" where
  "get_offside_line s =
     (case poses s of
        PosesSet _ \<Rightarrow> Inl AttributeError
      | PosesDict d \<Rightarrow>
          (let home_poses_x = sort (map (\<lambda>(n, pos). vec_x pos) d)
           in if length home_poses_x > 1 then Inr (home_poses_x ! 1)
              else if length home_poses_x = 1 then Inr (home_poses_x ! 0)
              else Inr 0.0))"

text \<open>
  The cycles of a run: the object is constructed once, then \<^verbatim>\<open>update\<close> is called once
  per cycle with that cycle's world model; an exception ends the run.
\<close>

fun updates ::
  "'ff collaborators \<Rightarrow> 'ff FormationStrategy \<Rightarrow> WorldModel list \<Rightarrow> error + 'ff FormationStrategy" where
  "updates C s [] = Inr s"
| "updates C s (wm # wms) =
     (case update C s wm of Inl e \<Rightarrow> Inl e | Inr s' \<Rightarrow> updates C s' wms)"

definition after_cycles ::
  "'ff collaborators \<Rightarrow> WorldModel list \<Rightarrow> error + 'ff FormationStrategy" where
  "after_cycles C wms =
     (case FormationStrategy_init C of Inl e \<Rightarrow> Inl e | Inr s \<Rightarrow> updates C s wms)"

section \<open>DecisionMaker\<close>

text \<open>
  Modelled from the spec: \<^verbatim>\<open>PlayerAction\<close> (\<^verbatim>\<open>service_pb2\<close>) and \<^verbatim>\<open>IAgent\<close>
  (\<^verbatim>\<open>src/interfaces/IAgent.py\<close>) are not among the sources. An action request is
  opaque beyond its kind, and \<^verbatim>\<open>add_action\<close> enqueues one action request on the agent.
\<close>

datatype PlayerAction = HeliosGoalie | OpaqueAction string

record IAgent =
  agent_wm :: WorldModel
  actions :: "PlayerAction list"

definition add_action :: "IAgent \<Rightarrow> PlayerAction \<Rightarrow> IAgent" where
  "add_action agent a = agent\<lparr>actions := actions agent @ [a]\<rparr>"

text \<open>
  The three fields of a \<^verbatim>\<open>DecisionMaker\<close> are the strategies it delegates to; each is
  given by its \<^verbatim>\<open>make_decision\<close>, which may raise or return the agent with whatever it
  enqueued.
\<close>

record DecisionMaker =
  play_on_decision_maker :: "IAgent \<Rightarrow> error + IAgent"
  set_play_decision_maker :: "IAgent \<Rightarrow> error + IAgent"
  penalty_decision_maker :: "IAgent \<Rightarrow> error + IAgent"

definition make_decision :: "DecisionMaker \<Rightarrow> IAgent \<Rightarrow> error + IAgent" where
  "make_decision self agent =
     (if is_goalie (agent_wm agent) then Inr (add_action agent HeliosGoalie)
      else if game_mode_type (agent_wm agent) = PlayOn
        then play_on_decision_maker self agent
      else if is_penalty_kick_mode (agent_wm agent)
        then penalty_decision_maker self agent
      else set_play_decision_maker self agent)"

text \<open>
  Modelled from the spec: \<^verbatim>\<open>PlayOnDecisionMaker\<close>, \<^verbatim>\<open>SetPlayDecisionMaker\<close> and
  \<^verbatim>\<open>PenaltyDecisionMaker\<close> are not among the sources. The spec describes each as a
  pluggable collaborator the dispatcher delegates to, through which one action request
  (opaque beyond "exactly one") is enqueued on the agent.
\<close>

definition DecisionMaker_init :: DecisionMaker where
  "DecisionMaker_init =
     \<lparr> play_on_decision_maker = (\<lambda>agent. Inr (add_action agent (OpaqueAction ''play_on''))),
       set_play_decision_maker = (\<lambda>agent. Inr (add_action agent (OpaqueAction ''set_play''))),
       penalty_decision_maker = (\<lambda>agent. Inr (add_action agent (OpaqueAction ''penalty''))) \<rparr>"

text \<open>What a strategy must do for the dispatcher to emit exactly one action request.\<close>

definition emits_one :: "(IAgent \<Rightarrow> error + IAgent) \<Rightarrow> bool" where
  "emits_one f \<longleftrightarrow> (\<forall>agent. \<exists>a. f agent = Inr (add_action agent a))"

section \<open>The specification's notions\<close>

text \<open>The threshold of the open-play classification, as the specification writes it.\<close>

definition threshold :: "'ff collaborators \<Rightarrow> WorldModel \<Rightarrow> int" where
  "threshold C wm =
     0 + (if vec_x (predicted_ball C wm) > 0 then 1 else 0)
       + (if uniform_number wm > 6 then 1 else 0)"

text \<open>
  The precedence of the formation selector as a table of guarded choices, read from
  the top; the first row whose guard holds decides.
\<close>

fun first_match :: "(bool \<times> 'a) list \<Rightarrow> 'a option" where
  "first_match [] = None"
| "first_match ((g, v) # rows) = (if g then Some v else first_match rows)"

definition precedence :: "Situation \<Rightarrow> WorldModel \<Rightarrow> Formation \<Rightarrow> (bool \<times> ff_ref) list" where
  "precedence sit wm fm =
     (let gm = game_mode_type wm; own = (game_mode_side wm = our_side wm) in
      [(sit = Offense_Situation, offense_formation fm),
       (sit = Defense_Situation, defense_formation fm),
       (gm = KickIn \<or> gm = CornerKick,
          if own then kickin_our_formation fm else setplay_opp_formation fm),
       (gm = GoalKick \<or> gm = GoalieCatch,
          if own then goalie_kick_our_formation fm else goalie_kick_opp_formation fm),
       (gm = BeforeKickOff \<or> gm = AfterGoal, before_kick_off_formation fm),
       (sit = OppSetPlay_Situation, setplay_opp_formation fm),
       (sit = OurSetPlay_Situation, setplay_our_formation fm)])"

definition formation_files :: "Formation \<Rightarrow> ff_ref list" where
  "formation_files fm =
     [before_kick_off_formation fm, defense_formation fm, offense_formation fm,
      goalie_kick_opp_formation fm, goalie_kick_our_formation fm,
      kickin_our_formation fm, setplay_opp_formation fm, setplay_our_formation fm]"

definition legality_bound :: "WorldModel \<Rightarrow> real" where
  "legality_bound wm =
     (if game_mode_type wm = BeforeKickOff \<or> game_mode_type wm = AfterGoal
      then - 0.5 else offside_line_x wm - 0.5)"

text \<open>The table a formation file hands out in a cycle, before the clamp.\<close>

definition raw_poses ::
  "'ff collaborators \<Rightarrow> 'ff FormationStrategy \<Rightarrow> ff_ref \<Rightarrow> WorldModel \<Rightarrow> (int \<times> Vector2D) list" where
  "raw_poses C s r wm = ff_get_poses C (ff_update C (ff_heap s r) (predicted_ball C wm))"

text \<open>
  The second-smallest of a list of values: the least value that remains when one
  occurrence of the least value is taken away.
\<close>

definition second_smallest :: "real list \<Rightarrow> real" where
  "second_smallest xs = Min (set (remove1 (Min (set xs)) xs))"

section \<open>Every run completes\<close>

text \<open>
  What holds of the strategy object from construction on: the catalogue is the one
  read at start, the selected name is the constant of \<^verbatim>\<open>_set_formation\<close>, and the
  current formation file is one of the eight of that set.
\<close>

definition active_set :: Formation where
  "active_set = Formation_init ''src/formations/4-3-3-cyrus-base''"

definition well_formed :: "'ff FormationStrategy \<Rightarrow> bool" where
  "well_formed s \<longleftrightarrow>
     formations s = read_formations \<and>
     selected_formation_name s = ''4-3-3-cyrus-base'' \<and>
     current_formation_file s \<in> set (formation_files active_set)"

text \<open>The formation file that is current after a cycle that starts in \<open>s\<close>.\<close>

definition selected :: "'ff collaborators \<Rightarrow> 'ff FormationStrategy \<Rightarrow> WorldModel \<Rightarrow> ff_ref" where
  "selected C s wm =
     (case first_match (precedence (classify wm (predicted_ball C wm)) wm active_set) of
        None \<Rightarrow> current_formation_file s
      | Some f \<Rightarrow> f)"

text \<open>The strategy object as the constructor leaves it.\<close>

definition constructed :: "'ff collaborators \<Rightarrow> 'ff FormationStrategy" where
  "constructed C =
     \<lparr> formations = read_formations,
       selected_formation_name = ''4-3-3-cyrus-base'',
       poses = PosesSet ((\<lambda>i. (i, \<lparr>vec_x = 0, vec_y = 0\<rparr>)) ` {0..<11}),
       current_situation = Offense_Situation,
       current_formation_file = offense_formation active_set,
       ff_heap = FormationFile C \<rparr>"

section \<open>Scenarios\<close>

text \<open>
  Collaborators for the scenarios of the specification: every formation file is static
  (its state is its table, which \<^verbatim>\<open>update\<close> leaves alone and \<^verbatim>\<open>get_poses\<close> hands out
  by reference), and the inertia point is \<open>pos + vel * (1 - decay ^ n) / (1 - decay)\<close>.
\<close>

definition scenario_table :: "(int \<times> Vector2D) list" where
  "scenario_table =
     [(1, \<lparr>vec_x = - 50, vec_y = 0\<rparr>),
      (2, \<lparr>vec_x = 0.3, vec_y = 7\<rparr>),
      (3, \<lparr>vec_x = - 12, vec_y = - 7\<rparr>)]"

definition scenario_collaborators :: "((int \<times> Vector2D) list) collaborators" where
  "scenario_collaborators =
     \<lparr> FormationFile = (\<lambda>path. scenario_table),
       ff_update = (\<lambda>ff ball. ff),
       ff_get_poses = (\<lambda>ff. ff),
       ff_written_back = (\<lambda>ff tbl. tbl),
       inertia_n_step_point = (\<lambda>pos vel n decay.
          \<lparr>vec_x = vec_x pos + vec_x vel * ((1 - power_int decay n) / (1 - decay)),
           vec_y = vec_y pos + vec_y vel * ((1 - power_int decay n) / (1 - decay))\<rparr>) \<rparr>"

text \<open>Scenario A: open play, ball at rest at (10, 0), reach steps 3 / 5 / 4, number 5.\<close>

definition scenario_A :: WorldModel where
  "scenario_A =
     \<lparr> first_teammate_reach_steps = 3,
       first_opponent_reach_steps = 5,
       self_reach_steps = 4,
       ball_position = \<lparr>vec_x = 10, vec_y = 0\<rparr>,
       ball_velocity = \<lparr>vec_x = 0, vec_y = 0\<rparr>,
       game_mode_type = PlayOn,
       game_mode_side = UNKNOWN,
       our_side = LEFT,
       uniform_number = 5,
       is_goalie = False,
       is_penalty_kick_mode = False,
       offside_line_x = 20 \<rparr>"

text \<open>Scenario C: before kick-off.\<close>

definition scenario_C :: WorldModel where
  "scenario_C = scenario_A\<lparr>game_mode_type := BeforeKickOff, game_mode_side := LEFT\<rparr>"

text \<open>Scenario E: a penalty kick for the own side.\<close>

definition scenario_E :: WorldModel where
  "scenario_E =
     scenario_A\<lparr>game_mode_type := PenaltyKick, game_mode_side := LEFT,
                is_penalty_kick_mode := True\<rparr>"

text \<open>A kick-in for the own side, and a free kick for the opponent with the offside line at 0.\<close>

definition scenario_kick_in :: WorldModel where
  "scenario_kick_in = scenario_A\<lparr>game_mode_type := KickIn, game_mode_side := LEFT\<rparr>"

definition scenario_free_kick :: WorldModel where
  "scenario_free_kick =
     scenario_A\<lparr>game_mode_type := OtherGameMode 5, game_mode_side := RIGHT,
                offside_line_x := 0\<rparr>"

text \<open>Scenario D: a position table whose x-values are -5, -3, -1, 0, 2, 4, 6, 8, 9, 10, 11.\<close>

definition scenario_D :: "(int \<times> Vector2D) list" where
  "scenario_D =
     [(1, \<lparr>vec_x = - 5, vec_y = 0\<rparr>), (2, \<lparr>vec_x = 2, vec_y = - 10\<rparr>),
      (3, \<lparr>vec_x = - 3, vec_y = 10\<rparr>), (4, \<lparr>vec_x = - 1, vec_y = - 20\<rparr>),
      (5, \<lparr>vec_x = 0, vec_y = 20\<rparr>), (6, \<lparr>vec_x = 4, vec_y = 0\<rparr>),
      (7, \<lparr>vec_x = 6, vec_y = - 15\<rparr>), (8, \<lparr>vec_x = 8, vec_y = 15\<rparr>),
      (9, \<lparr>vec_x = 9, vec_y = - 25\<rparr>), (10, \<lparr>vec_x = 10, vec_y = 25\<rparr>),
      (11, \<lparr>vec_x = 11, vec_y = 0\<rparr>)]"

definition scenario_agent :: IAgent where
  "scenario_agent = \<lparr> agent_wm = scenario_E, actions = [] \<rparr>"

section \<open>Auxiliary facts\<close>

lemma read_formations_active: "read_formations ''4-3-3-cyrus-base'' = Some active_set"
  by (simp add: read_formations_def active_set_def)

lemma get_current_formation_active:
  "formations s = read_formations \<Longrightarrow> selected_formation_name s = ''4-3-3-cyrus-base'' \<Longrightarrow>
   get_current_formation s = Inr active_set"
  by (simp add: get_current_formation_def read_formations_active)

lemma init_eq: "FormationStrategy_init C = Inr (constructed C)"
  by (simp add: FormationStrategy_init_def constructed_def set_formation_def
      get_current_formation_def read_formations_active)

lemma constructed_well_formed: "well_formed (constructed C)"
  by (simp add: constructed_def well_formed_def formation_files_def)

lemma pick_active:
  "formations s = read_formations \<Longrightarrow> selected_formation_name s = ''4-3-3-cyrus-base'' \<Longrightarrow>
   pick s field = Inr (Some (field active_set))"
  by (simp add: pick_def get_current_formation_active)

lemma select_active:
  assumes "formations s = read_formations" "selected_formation_name s = ''4-3-3-cyrus-base''"
  shows "select_formation_file s wm =
           Inr (first_match (precedence (current_situation s) wm active_set))"
  by (simp add: select_formation_file_def pick_active [OF assms] precedence_def Let_def)

lemma first_match_precedence_files:
  "first_match (precedence sit wm fm) = Some f \<Longrightarrow> f \<in> set (formation_files fm)"
  by (auto simp: precedence_def formation_files_def Let_def split: if_splits)

lemma update_eq:
  assumes "formations s = read_formations"
  shows "update C s wm =
     Inr (s\<lparr> selected_formation_name := ''4-3-3-cyrus-base'',
             current_situation := classify wm (predicted_ball C wm),
             current_formation_file := selected C s wm,
             ff_heap := (ff_heap s)(selected C s wm :=
                ff_written_back C (ff_update C (ff_heap s (selected C s wm)) (predicted_ball C wm))
                  (clamp_poses wm (raw_poses C s (selected C s wm) wm))),
             poses := PosesDict (clamp_poses wm (raw_poses C s (selected C s wm) wm)) \<rparr>)"
proof -
  let ?s1 = "s\<lparr>selected_formation_name := ''4-3-3-cyrus-base'',
               current_situation := classify wm (predicted_ball C wm)\<rparr>"
  have sel: "select_formation_file ?s1 wm =
      Inr (first_match (precedence (classify wm (predicted_ball C wm)) wm active_set))"
    using select_active [of ?s1 wm] assms by simp
  show ?thesis
    by (cases "first_match (precedence (classify wm (predicted_ball C wm)) wm active_set)")
       (simp_all add: update_def Let_def sel selected_def raw_poses_def set_formation_def)
qed

lemma update_well_formed:
  assumes "well_formed s"
  shows "\<exists>s'. update C s wm = Inr s' \<and> well_formed s'"
proof -
  have "selected C s wm \<in> set (formation_files active_set)"
    using assms first_match_precedence_files
    by (auto simp: selected_def well_formed_def split: option.splits)
  then show ?thesis
    using assms by (simp add: update_eq well_formed_def)
qed

lemma updates_well_formed:
  "well_formed s \<Longrightarrow> \<exists>s'. updates C s wms = Inr s' \<and> well_formed s'"
proof (induction wms arbitrary: s)
  case Nil
  then show ?case by simp
next
  case (Cons wm wms)
  from update_well_formed [OF Cons.prems, of C wm]
  obtain s1 where "update C s wm = Inr s1" "well_formed s1" by blast
  with Cons.IH [of s1] show ?case by simp
qed

lemma after_cycles_well_formed:
  "\<exists>s. after_cycles C wms = Inr s \<and> well_formed s"
  using updates_well_formed [OF constructed_well_formed]
  by (simp add: after_cycles_def init_eq)

lemma sort_nth_1:
  fixes xs :: "real list"
  assumes "length xs > 1"
  shows "sort xs ! 1 = second_smallest xs"
proof -
  have "length (sort xs) > 1" using assms by simp
  then obtain a b rest where srt: "sort xs = a # b # rest"
    by (cases "sort xs"; cases "tl (sort xs)") auto
  have "sorted (sort xs)" by simp
  then have sorted: "sorted (a # b # rest)" by (simp only: srt)
  have "set xs = set (sort xs)" by simp
  then have set_xs: "set xs = set (a # b # rest)" by (simp only: srt)
  have min_a: "Min (set xs) = a"
    unfolding set_xs using sorted by (intro Min_eqI) auto
  have "mset (remove1 a xs) = mset (sort xs) - {#a#}"
    by simp
  also have "\<dots> = mset (b # rest)"
    by (simp only: srt) simp
  finally have "set (remove1 a xs) = set (b # rest)"
    by (metis set_mset_mset)
  moreover have "Min (set (b # rest)) = b"
    using sorted by (intro Min_eqI) auto
  ultimately show ?thesis
    by (simp add: second_smallest_def min_a srt)
qed

lemma clamp_poses_eq:
  "clamp_poses wm tbl =
     map (\<lambda>(n, pos). (n, pos\<lparr>vec_x := min (vec_x pos) (legality_bound wm)\<rparr>)) tbl"
  by (simp add: clamp_poses_def legality_bound_def)

lemma Vector2D_eta: "\<lparr>vec_x = vec_x (p::Vector2D), vec_y = vec_y p\<rparr> = p"
  by (cases p) simp

lemma after_cycles_Nil: "after_cycles C [] = Inr (constructed C)"
  by (simp add: after_cycles_def init_eq)

lemmas scenario_defs =
  scenario_A_def scenario_C_def scenario_E_def scenario_kick_in_def scenario_free_kick_def

lemma formations_constructed: "formations (constructed C) = read_formations"
  by (simp add: constructed_def)

lemma scenario_predicted_ball:
  "ball_velocity wm = \<lparr>vec_x = 0, vec_y = 0\<rparr> \<Longrightarrow>
   predicted_ball scenario_collaborators wm = ball_position wm"
  by (simp add: predicted_ball_def scenario_collaborators_def Vector2D_eta)

lemma scenario_D_val:
  "second_smallest (map (\<lambda>(n, pos). vec_x pos) scenario_D) = - 3"
  by (simp add: second_smallest_def scenario_D_def)

text \<open>
  Once \<^verbatim>\<open>_poses\<close> is a dict, the offside reference line is the second-smallest of the
  x-coordinates of its positions when there is more than one position, the single
  x-coordinate when there is exactly one, and 0.0 when there is none. In scenario D it
  is -3.
\<close>

lemma offside_line_of_dict:
  assumes "poses s = PosesDict d"
  shows "get_offside_line s =
           Inr (if length d > 1 then second_smallest (map (\<lambda>(n, pos). vec_x pos) d)
                else if length d = 1 then vec_x (snd (hd d))
                else 0)"
proof -
  let ?xs = "map (\<lambda>(n, pos). vec_x pos) d"
  consider "length d > 1" | "length d = 1" | "d = []" by (cases d) auto
  then show ?thesis
  proof cases
    case 1
    then have "sort ?xs ! 1 = second_smallest ?xs" by (intro sort_nth_1) simp
    with 1 show ?thesis using assms by (simp add: get_offside_line_def)
  next
    case 2
    then obtain p where "d = [p]" by (cases d) auto
    then show ?thesis using assms by (simp add: get_offside_line_def split: prod.splits)
  next
    case 3
    then show ?thesis using assms by (simp add: get_offside_line_def)
  qed
qed

lemma offside_line_scenario_D:
  "poses ((constructed scenario_collaborators)\<lparr>poses := PosesDict scenario_D\<rparr>)
     = PosesDict scenario_D \<and>
   get_offside_line ((constructed scenario_collaborators)\<lparr>poses := PosesDict scenario_D\<rparr>)
     = Inr (- 3)"
proof -
  have h: "poses ((constructed scenario_collaborators)\<lparr>poses := PosesDict scenario_D\<rparr>)
     = PosesDict scenario_D"
    by simp
  have "length scenario_D = 11"
    by (simp add: scenario_D_def)
  with offside_line_of_dict [OF h] h show ?thesis
    by (simp add: scenario_D_val)
qed

section \<open>The claims\<close>

text \<open>
  C1. In a cycle whose game mode is open play, the update completes and the situation is
  Offense when \<open>min(teammate_reach, self_reach) < opponent_reach + threshold\<close> and Defense
  otherwise; the threshold counts 1 for a predicted ball point with \<open>x > 0\<close> and 1 for a
  roster number above 6, and the predicted ball point is the inertia point of the ball
  after \<open>min(teammate_reach, opponent_reach, self_reach)\<close> steps with decay 0.96.
\<close>

theorem open_play_situation:
  assumes "after_cycles C wms = Inr s" and "game_mode_type wm = PlayOn"
  shows "\<exists>s'. update C s wm = Inr s' \<and>
           current_situation s' =
             (if min (first_teammate_reach_steps wm) (self_reach_steps wm)
                   < first_opponent_reach_steps wm + threshold C wm
              then Offense_Situation else Defense_Situation) \<and>
           predicted_ball C wm =
             inertia_n_step_point C (ball_position wm) (ball_velocity wm)
               (Min {first_teammate_reach_steps wm, first_opponent_reach_steps wm,
                     self_reach_steps wm}) 0.96"
proof -
  from after_cycles_well_formed [of C wms] assms(1) have "well_formed s" by simp
  then have "formations s = read_formations" by (simp add: well_formed_def)
  then have "\<exists>s'. update C s wm = Inr s' \<and>
           current_situation s' =
             (if min (first_teammate_reach_steps wm) (self_reach_steps wm)
                   < first_opponent_reach_steps wm + threshold C wm
              then Offense_Situation else Defense_Situation)"
    using assms(2) by (simp add: update_eq classify_def threshold_def)
  moreover have "predicted_ball C wm =
             inertia_n_step_point C (ball_position wm) (ball_velocity wm)
               (Min {first_teammate_reach_steps wm, first_opponent_reach_steps wm,
                     self_reach_steps wm}) 0.96"
    by (simp add: predicted_ball_def Vector2D_eta)
  ultimately show ?thesis by blast
qed

theorem open_play_situation_witness:
  "after_cycles scenario_collaborators [] = Inr (constructed scenario_collaborators) \<and>
   game_mode_type scenario_A = PlayOn \<and>
   (\<exists>s'. update scenario_collaborators (constructed scenario_collaborators) scenario_A = Inr s' \<and>
      current_situation s' = Offense_Situation \<and>
      predicted_ball scenario_collaborators scenario_A = \<lparr>vec_x = 10, vec_y = 0\<rparr>)"
proof -
  have h1: "after_cycles scenario_collaborators [] = Inr (constructed scenario_collaborators)"
    by (rule after_cycles_Nil)
  have h2: "game_mode_type scenario_A = PlayOn"
    by (simp add: scenario_A_def)
  have pb: "predicted_ball scenario_collaborators scenario_A = \<lparr>vec_x = 10, vec_y = 0\<rparr>"
    by (simp add: scenario_predicted_ball scenario_A_def)
  have thr: "threshold scenario_collaborators scenario_A = 1"
    by (simp add: threshold_def pb) (simp add: scenario_A_def)
  from open_play_situation [OF h1 h2] obtain s' where
    "update scenario_collaborators (constructed scenario_collaborators) scenario_A = Inr s'"
    "current_situation s' =
       (if min (first_teammate_reach_steps scenario_A) (self_reach_steps scenario_A)
             < first_opponent_reach_steps scenario_A + threshold scenario_collaborators scenario_A
        then Offense_Situation else Defense_Situation)"
    by blast
  moreover have "first_teammate_reach_steps scenario_A = 3" "self_reach_steps scenario_A = 4"
    "first_opponent_reach_steps scenario_A = 5"
    by (simp_all add: scenario_A_def)
  ultimately have "update scenario_collaborators (constructed scenario_collaborators) scenario_A
      = Inr s' \<and> current_situation s' = Offense_Situation"
    by (simp add: thr)
  then
  show ?thesis using h1 h2 pb by blast
qed

text \<open>
  C2. In every cycle the update completes and the current formation file is the choice of
  the first row of the seven-row precedence table that matches the situation classified
  in this cycle and the game mode, taken from the active formation set; when no row
  matches it is the file of the cycle before.
\<close>

theorem formation_selection_precedence:
  assumes "after_cycles C wms = Inr s"
  shows "\<exists>s' fm. update C s wm = Inr s' \<and> get_current_formation s' = Inr fm \<and>
           current_formation_file s' =
             (case first_match (precedence (current_situation s') wm fm) of
                Some f \<Rightarrow> f
              | None \<Rightarrow> current_formation_file s)"
proof -
  from after_cycles_well_formed [of C wms] assms have "well_formed s" by simp
  then have "formations s = read_formations" by (simp add: well_formed_def)
  then show ?thesis
    by (simp add: update_eq get_current_formation_active selected_def)
qed

theorem formation_selection_precedence_witness:
  "after_cycles scenario_collaborators [] = Inr (constructed scenario_collaborators) \<and>
   (\<exists>s' fm. update scenario_collaborators (constructed scenario_collaborators) scenario_kick_in
               = Inr s' \<and>
      get_current_formation s' = Inr fm \<and>
      current_formation_file s' = ''src/formations/4-3-3-cyrus-base/kickin-our-formation.conf'')"
proof -
  have h1: "after_cycles scenario_collaborators [] = Inr (constructed scenario_collaborators)"
    by (rule after_cycles_Nil)
  from formation_selection_precedence [OF h1, of scenario_kick_in] obtain s' fm where
    u: "update scenario_collaborators (constructed scenario_collaborators) scenario_kick_in = Inr s'"
    and g: "get_current_formation s' = Inr fm"
    and c: "current_formation_file s' =
             (case first_match (precedence (current_situation s') scenario_kick_in fm) of
                Some f \<Rightarrow> f
              | None \<Rightarrow> current_formation_file (constructed scenario_collaborators))"
    by blast
  from u have sit: "current_situation s' = OurSetPlay_Situation"
    by (auto simp: update_eq formations_constructed classify_def scenario_defs)
  from u g have fm: "fm = active_set"
    by (auto simp: update_eq formations_constructed get_current_formation_def
        read_formations_active)
  have "current_formation_file s' = ''src/formations/4-3-3-cyrus-base/kickin-our-formation.conf''"
    unfolding c sit fm
    by (simp add: precedence_def active_set_def Formation_init_def scenario_defs)
  with u g h1 show ?thesis by blast
qed

text \<open>
  C3. After the update of any cycle, every position of the position table has an
  x-coordinate of at most -0.5 when the game mode is before-kick-off or after-goal, and
  of at most \<open>offside_line_x - 0.5\<close> in every other game mode.
\<close>

theorem positions_within_legality_bound:
  assumes "after_cycles C wms = Inr s"
  shows "\<exists>s' tbl. update C s wm = Inr s' \<and> poses s' = PosesDict tbl \<and>
           (\<forall>(n, pos) \<in> set tbl.
              vec_x pos \<le> (if game_mode_type wm = BeforeKickOff \<or> game_mode_type wm = AfterGoal
                           then - 0.5 else offside_line_x wm - 0.5))"
proof -
  from after_cycles_well_formed [of C wms] assms have "well_formed s" by simp
  then have "formations s = read_formations" by (simp add: well_formed_def)
  then show ?thesis
    by (auto simp: update_eq clamp_poses_def)
qed

theorem positions_within_legality_bound_witness:
  "after_cycles scenario_collaborators [] = Inr (constructed scenario_collaborators) \<and>
   (\<exists>s' tbl. update scenario_collaborators (constructed scenario_collaborators) scenario_C
               = Inr s' \<and>
      poses s' = PosesDict tbl \<and> (\<forall>(n, pos) \<in> set tbl. vec_x pos \<le> - 0.5))"
proof -
  have h1: "after_cycles scenario_collaborators [] = Inr (constructed scenario_collaborators)"
    by (rule after_cycles_Nil)
  have "game_mode_type scenario_C = BeforeKickOff"
    by (simp add: scenario_defs)
  with positions_within_legality_bound [OF h1, of scenario_C] h1 show ?thesis
    by simp
qed

text \<open>
  C4. In a cycle whose game mode is penalty-kick, from any state of the strategy object,
  the update completes, the situation is PenaltyKick, no branch of the formation
  selection is taken, and the current formation file is the one of the cycle before.
\<close>

theorem penalty_kick_keeps_formation:
  assumes "game_mode_type wm = PenaltyKick"
  shows "\<exists>s'. update C s wm = Inr s' \<and>
           current_situation s' = PenaltyKick_Situation \<and>
           select_formation_file s' wm = Inr None \<and>
           current_formation_file s' = current_formation_file s"
  using assms
  by (simp add: update_def classify_def select_formation_file_def set_formation_def Let_def)

theorem penalty_kick_keeps_formation_witness:
  "game_mode_type scenario_E = PenaltyKick \<and>
   (\<exists>s'. update scenario_collaborators (constructed scenario_collaborators) scenario_E = Inr s' \<and>
      current_situation s' = PenaltyKick_Situation \<and>
      select_formation_file s' scenario_E = Inr None \<and>
      current_formation_file s' = ''src/formations/4-3-3-cyrus-base/offense-formation.conf'')"
proof -
  have h: "game_mode_type scenario_E = PenaltyKick"
    by (simp add: scenario_defs)
  have "current_formation_file (constructed scenario_collaborators)
          = ''src/formations/4-3-3-cyrus-base/offense-formation.conf''"
    by (simp add: constructed_def active_set_def Formation_init_def)
  with penalty_kick_keeps_formation [OF h, of scenario_collaborators
      "constructed scenario_collaborators"] h
  show ?thesis by simp
qed

text \<open>
  C5. When each of the three strategies enqueues exactly one action request, every call of
  the dispatcher returns without error with exactly one action request added, and it is
  the one of the first matching branch: the goalie action for a goalie; else the
  open-play strategy in open play; else the penalty strategy in penalty-kick mode; else
  the set-play strategy.
\<close>

theorem dispatcher_emits_one_action:
  assumes "emits_one (play_on_decision_maker dm)"
    and "emits_one (set_play_decision_maker dm)"
    and "emits_one (penalty_decision_maker dm)"
  shows "(\<exists>a. make_decision dm agent = Inr (add_action agent a)) \<and>
         (\<forall>agent'. make_decision dm agent = Inr agent' \<longrightarrow>
            length (actions agent') = length (actions agent) + 1) \<and>
         (is_goalie (agent_wm agent) \<longrightarrow>
            make_decision dm agent = Inr (add_action agent HeliosGoalie)) \<and>
         (\<not> is_goalie (agent_wm agent) \<and> game_mode_type (agent_wm agent) = PlayOn \<longrightarrow>
            make_decision dm agent = play_on_decision_maker dm agent) \<and>
         (\<not> is_goalie (agent_wm agent) \<and> game_mode_type (agent_wm agent) \<noteq> PlayOn \<and>
          is_penalty_kick_mode (agent_wm agent) \<longrightarrow>
            make_decision dm agent = penalty_decision_maker dm agent) \<and>
         (\<not> is_goalie (agent_wm agent) \<and> game_mode_type (agent_wm agent) \<noteq> PlayOn \<and>
          \<not> is_penalty_kick_mode (agent_wm agent) \<longrightarrow>
            make_decision dm agent = set_play_decision_maker dm agent)"
proof -
  have one: "\<exists>a. make_decision dm agent = Inr (add_action agent a)"
    using assms unfolding emits_one_def make_decision_def by auto
  then have "\<forall>agent'. make_decision dm agent = Inr agent' \<longrightarrow>
            length (actions agent') = length (actions agent) + 1"
    by (auto simp: add_action_def)
  with one show ?thesis
    by (simp add: make_decision_def)
qed

theorem dispatcher_emits_one_action_witness:
  "emits_one (play_on_decision_maker DecisionMaker_init) \<and>
   emits_one (set_play_decision_maker DecisionMaker_init) \<and>
   emits_one (penalty_decision_maker DecisionMaker_init) \<and>
   make_decision DecisionMaker_init scenario_agent =
     Inr (add_action scenario_agent (OpaqueAction ''penalty'')) \<and>
   (\<exists>agent'. make_decision DecisionMaker_init scenario_agent = Inr agent' \<and>
      length (actions agent') = 1)"
proof -
  have h1: "emits_one (play_on_decision_maker DecisionMaker_init)"
    and h2: "emits_one (set_play_decision_maker DecisionMaker_init)"
    and h3: "emits_one (penalty_decision_maker DecisionMaker_init)"
    by (auto simp: emits_one_def DecisionMaker_init_def)
  have "\<not> is_goalie (agent_wm scenario_agent)"
    "game_mode_type (agent_wm scenario_agent) \<noteq> PlayOn"
    "is_penalty_kick_mode (agent_wm scenario_agent)"
    "actions scenario_agent = []"
    by (simp_all add: scenario_agent_def scenario_defs)
  with dispatcher_emits_one_action [OF h1 h2 h3, of scenario_agent] h1 h2 h3
  show ?thesis
    by (simp add: DecisionMaker_init_def)
qed

text \<open>
  C6 says that the offside reference line is the second-smallest x-coordinate (the single
  one, or 0.0) in every state of the position table. After construction and before the
  first update, \<^verbatim>\<open>_poses\<close> is the set of tuples of line 74, which has no
  \<^verbatim>\<open>values\<close>, and \<^verbatim>\<open>get_offside_line\<close> raises AttributeError. With the dict the
  annotation promises, the 11 positions at x = 0 would give 0.0.
\<close>

theorem get_offside_line_after_construction:
  "\<exists>s. FormationStrategy_init C = Inr s \<and> after_cycles C [] = Inr s \<and>
       get_offside_line s = Inl AttributeError"
  by (simp add: init_eq after_cycles_Nil constructed_def get_offside_line_def)

text \<open>
  C7. In a cycle whose game mode is not open play, the update completes and the situation
  is PenaltyKick when the game mode is penalty-kick, whatever the set-play side;
  otherwise it is OurSetPlay when the set-play side is the own side and OppSetPlay in
  every remaining case.
\<close>

theorem set_play_situation:
  assumes "after_cycles C wms = Inr s" and "game_mode_type wm \<noteq> PlayOn"
  shows "\<exists>s'. update C s wm = Inr s' \<and>
           current_situation s' =
             (if game_mode_type wm = PenaltyKick then PenaltyKick_Situation
              else if game_mode_side wm = our_side wm then OurSetPlay_Situation
              else OppSetPlay_Situation)"
proof -
  from after_cycles_well_formed [of C wms] assms(1) have "well_formed s" by simp
  then have "formations s = read_formations" by (simp add: well_formed_def)
  then show ?thesis
    using assms(2) by (simp add: update_eq classify_def)
qed

theorem set_play_situation_witness:
  "after_cycles scenario_collaborators [] = Inr (constructed scenario_collaborators) \<and>
   game_mode_type scenario_free_kick \<noteq> PlayOn \<and>
   (\<exists>s'. update scenario_collaborators (constructed scenario_collaborators) scenario_free_kick
            = Inr s' \<and>
      current_situation s' = OppSetPlay_Situation)"
proof -
  have h1: "after_cycles scenario_collaborators [] = Inr (constructed scenario_collaborators)"
    by (rule after_cycles_Nil)
  have h2: "game_mode_type scenario_free_kick \<noteq> PlayOn"
    by (simp add: scenario_defs)
  have "game_mode_type scenario_free_kick \<noteq> PenaltyKick"
    "game_mode_side scenario_free_kick \<noteq> our_side scenario_free_kick"
    by (simp_all add: scenario_defs)
  with set_play_situation [OF h1 h2] h1 h2 show ?thesis
    by simp
qed

text \<open>
  C8 says that \<^verbatim>\<open>get_position\<close> succeeds for the slots 1..11 from construction on.
  After construction and before the first update, \<^verbatim>\<open>_poses\<close> is a set of tuples, and
  \<^verbatim>\<open>get_position\<close> raises TypeError for every slot.
\<close>

theorem get_position_after_construction:
  "\<exists>s. FormationStrategy_init C = Inr s \<and> get_position s n = Inl TypeError"
  by (simp add: init_eq constructed_def get_position_def)

text \<open>
  C9. In every cycle the stored table has the slots of the table the formation file handed
  out, in the same order; each stored x is the minimum of the raw x and the legality
  bound of the cycle, so it is never above the raw x, and each stored y is the raw y.
  \<^verbatim>\<open>get_position\<close> then returns, for each slot of the raw table, the raw position with
  its x clamped.
\<close>

theorem clamp_is_ceiling_on_x_only:
  assumes "after_cycles C wms = Inr s"
  shows "\<exists>s' tbl. update C s wm = Inr s' \<and> poses s' = PosesDict tbl \<and>
           (let raw = raw_poses C s (current_formation_file s') wm in
            length tbl = length raw \<and>
            (\<forall>i < length raw.
               fst (tbl ! i) = fst (raw ! i) \<and>
               vec_x (snd (tbl ! i)) = min (vec_x (snd (raw ! i))) (legality_bound wm) \<and>
               vec_x (snd (tbl ! i)) \<le> vec_x (snd (raw ! i)) \<and>
               vec_y (snd (tbl ! i)) = vec_y (snd (raw ! i))) \<and>
            (\<forall>n. get_position s' n =
               (case map_of raw n of
                  None \<Rightarrow> Inl KeyError
                | Some pos \<Rightarrow> Inr (pos\<lparr>vec_x := min (vec_x pos) (legality_bound wm)\<rparr>))))"
proof -
  from after_cycles_well_formed [of C wms] assms have "well_formed s" by simp
  then have "formations s = read_formations" by (simp add: well_formed_def)
  then show ?thesis
    by (simp add: update_eq clamp_poses_eq get_position_def map_of_map Let_def
        split: prod.splits option.splits)
qed

theorem clamp_is_ceiling_on_x_only_witness:
  "after_cycles scenario_collaborators [] = Inr (constructed scenario_collaborators) \<and>
   (\<exists>s'. update scenario_collaborators (constructed scenario_collaborators) scenario_C = Inr s' \<and>
      raw_poses scenario_collaborators (constructed scenario_collaborators)
        (current_formation_file s') scenario_C = scenario_table \<and>
      get_position s' 2 = Inr \<lparr>vec_x = - 0.5, vec_y = 7\<rparr> \<and>
      get_position s' 3 = Inr \<lparr>vec_x = - 12, vec_y = - 7\<rparr>)"
proof -
  have h1: "after_cycles scenario_collaborators [] = Inr (constructed scenario_collaborators)"
    by (rule after_cycles_Nil)
  have raw: "raw_poses scenario_collaborators (constructed scenario_collaborators) r scenario_C
      = scenario_table" for r
    by (simp add: raw_poses_def scenario_collaborators_def constructed_def)
  have b: "legality_bound scenario_C = - 0.5"
    by (simp add: legality_bound_def scenario_defs)
  from clamp_is_ceiling_on_x_only [OF h1, of scenario_C] h1 show ?thesis
    by (auto simp: raw b Let_def scenario_table_def)
qed

text \<open>
  C10. The constructor completes with the offense formation of the active set as the
  current formation file, and after any number of cycles the run has completed with a
  current formation file that is one of the eight files of the active formation set.
\<close>

theorem current_formation_always_defined:
  "(\<exists>s0 fm0. FormationStrategy_init C = Inr s0 \<and> get_current_formation s0 = Inr fm0 \<and>
       current_formation_file s0 = offense_formation fm0) \<and>
   (\<exists>s fm. after_cycles C wms = Inr s \<and> get_current_formation s = Inr fm \<and>
       current_formation_file s \<in> set (formation_files fm))"
proof -
  obtain s where "after_cycles C wms = Inr s" "well_formed s"
    using after_cycles_well_formed by blast
  then have "after_cycles C wms = Inr s \<and> get_current_formation s = Inr active_set \<and>
       current_formation_file s \<in> set (formation_files active_set)"
    by (simp add: well_formed_def get_current_formation_active)
  then show ?thesis
    by (auto simp: init_eq constructed_def get_current_formation_active)
qed

theorem current_formation_always_defined_witness:
  "\<exists>s fm. after_cycles scenario_collaborators [scenario_E] = Inr s \<and>
     get_current_formation s = Inr fm \<and>
     current_formation_file s \<in> set (formation_files fm)"
  using current_formation_always_defined [of scenario_collaborators "[scenario_E]"]
  by blast

end
